theory Spec2Isabelle
  imports Main "HOL-Library.AList"
begin

section \<open>JavaScript values, errors and strings\<close>

text \<open>
  The attribute subsystem of dom.js (\<^verbatim>\<open>Attributes\<close>, \<^verbatim>\<open>Attr\<close>, \<^verbatim>\<open>reflectAttribute\<close>) is
  embedded with explicit state passing. The JavaScript values that reach attribute
  storage are \<^verbatim>\<open>undefined\<close>, \<^verbatim>\<open>null\<close>, booleans and strings; \<^verbatim>\<open>===\<close> on them is
  equality of \<open>jsval\<close>.
\<close>

datatype jsval = Undefined | Null | Bool bool | Str string

text \<open>
  \<^verbatim>\<open>InvalidCharacterError()\<close> and \<^verbatim>\<open>NamespaceError()\<close> throw; \<^verbatim>\<open>assert\<close> throws on a
  false condition; reading a property of \<^verbatim>\<open>undefined\<close> or \<^verbatim>\<open>null\<close>, or calling a missing
  method, is a \<^verbatim>\<open>TypeError\<close>.
\<close>

datatype error = InvalidCharacterError | NamespaceError | TypeError | AssertionError

text \<open>The operands of \<^verbatim>\<open>!x\<close> and \<^verbatim>\<open>x || y\<close>: the falsy values.\<close>

definition falsy :: "jsval \<Rightarrow> bool" where
  "falsy v = (case v of Undefined \<Rightarrow> True | Null \<Rightarrow> True | Bool b \<Rightarrow> \<not> b | Str s \<Rightarrow> s = [])"

text \<open>
  \<^verbatim>\<open>toLowerCase\<close>: strings are byte strings here, and the ASCII capitals are the ones
  mapped; every other character is left as it is (the lower-casing of letters outside
  ASCII is not modelled; none of them maps to a letter of \<^verbatim>\<open>xmlns\<close>).
\<close>

definition lower_char :: "char \<Rightarrow> char" where
  "lower_char c =
     (case map_of (zip ''ABCDEFGHIJKLMNOPQRSTUVWXYZ'' ''abcdefghijklmnopqrstuvwxyz'') c of
        None \<Rightarrow> c
      | Some l \<Rightarrow> l)"

definition toLowerCase :: "string \<Rightarrow> string" where
  "toLowerCase s = map lower_char s"

text \<open>\<^verbatim>\<open>S.indexOf\<close> and \<^verbatim>\<open>A.indexOf\<close>: the first position, \<open>None\<close> for \<^verbatim>\<open>-1\<close>.\<close>

fun indexOf :: "'a list \<Rightarrow> 'a \<Rightarrow> nat option" where
  "indexOf [] c = None"
| "indexOf (x # xs) c = (if x = c then Some 0 else map_option Suc (indexOf xs c))"

text \<open>\<^verbatim>\<open>splice(target, idx, 1)\<close>: the array without its element at \<open>idx\<close>.\<close>

definition splice1 :: "'a list \<Rightarrow> nat \<Rightarrow> 'a list" where
  "splice1 xs idx = take idx xs @ drop (Suc idx) xs"

text \<open>
  A namespace or prefix argument is \<^verbatim>\<open>null\<close> (\<open>None\<close>) or a string. String
  concatenation \<^verbatim>\<open>ns + "|"\<close> turns \<^verbatim>\<open>null\<close> into the text \<^verbatim>\<open>null\<close>; \<^verbatim>\<open>ns || ""\<close> and
  \<^verbatim>\<open>x || null\<close> replace the falsy values.
\<close>

definition concat_str :: "string option \<Rightarrow> string" where
  "concat_str ns = (case ns of None \<Rightarrow> ''null'' | Some s \<Rightarrow> s)"

definition or_empty :: "string option \<Rightarrow> string" where
  "or_empty ns = (case ns of None \<Rightarrow> [] | Some s \<Rightarrow> s)"

definition or_null :: "string option \<Rightarrow> string option" where
  "or_null x = (case x of None \<Rightarrow> None | Some s \<Rightarrow> if s = [] then None else Some s)"

definition truthy :: "string option \<Rightarrow> bool" where
  "truthy x = (case x of None \<Rightarrow> False | Some s \<Rightarrow> s \<noteq> [])"

text \<open>
  Modelled from the spec: the constants \<^verbatim>\<open>XML_NAMESPACE\<close> and \<^verbatim>\<open>XMLNS_NAMESPACE\<close> are
  declared outside the attribute module; they are "the XML namespace" and "the XMLNS
  namespace" of the namespaced set operation.
\<close>

definition XML_NAMESPACE :: string where
  "XML_NAMESPACE = ''http://www.w3.org/XML/1998/namespace''"

definition XMLNS_NAMESPACE :: string where
  "XMLNS_NAMESPACE = ''http://www.w3.org/2000/xmlns/''"

section \<open>Declarations, attribute nodes, elements\<close>

text \<open>
  An attribute declaration object. The \<^verbatim>\<open>onchange\<close> hook is an opaque function: it is
  named by a number, and each call is recorded in the trace with its arguments.
  \<^verbatim>\<open>legalValues\<close> is taken as the table of the object's own properties.
\<close>

record attrdecl =
  onchange :: "nat option"
  idlToContent :: "(jsval \<Rightarrow> jsval) option"
  contentToIDL :: "(jsval \<Rightarrow> error + jsval) option"
  idlname :: "string option"
  boolean :: bool
  legalValues :: "(string \<times> string) list option"

text \<open>
  An \<^verbatim>\<open>Attr\<close> object. \<open>data\<close> is the field behind the \<^verbatim>\<open>value\<close> accessor; \<open>decl\<close>
  is the field \<^verbatim>\<open>declaration\<close>; \<open>idlvalue\<close> is the plain property of that name (the
  prototype defines no accessor for it, so a read of it is \<^verbatim>\<open>undefined\<close> until something
  is stored). \<^verbatim>\<open>ownerElement\<close> never changes and is the element given to every
  operation.
\<close>

record attr =
  decl :: "attrdecl option"
  localName :: string
  prefix :: "string option"
  namespaceURI :: "string option"
  data :: jsval
  idlvalue :: jsval

definition Attr :: "attrdecl option \<Rightarrow> string \<Rightarrow> string option \<Rightarrow> string option \<Rightarrow> attr" where
  "Attr d lname pfx namespace =
     \<lparr>decl = d, localName = lname, prefix = or_null pfx,
      namespaceURI = or_null namespace, data = Undefined, idlvalue = Undefined\<rparr>"

text \<open>The getter of \<^verbatim>\<open>Attr.name\<close>.\<close>

definition attr_name :: "attr \<Rightarrow> string" where
  "attr_name this =
     (if truthy (prefix this) then or_empty (prefix this) @ '':'' @ localName this
      else localName this)"

text \<open>
  The owning element, as far as the attribute code reads it: \<^verbatim>\<open>isHTML\<close>, \<^verbatim>\<open>rooted\<close> and
  the \<^verbatim>\<open>_attrDecls\<close> table seen through the prototype chain.
\<close>

record element =
  isHTML :: bool
  rooted :: bool
  attrDecls :: "(string \<times> attrdecl) list"

section \<open>The collection\<close>

text \<open>
  What the trace records: a call of an \<^verbatim>\<open>onchange\<close> hook with its local-name, old-value
  and new-value arguments, \<^verbatim>\<open>mutateAttr(attr, oldval)\<close> and \<^verbatim>\<open>mutateRemoveAttr(attr)\<close>.
\<close>

datatype event =
    OnChange nat jsval jsval jsval
  | MutateAttr nat jsval
  | MutateRemoveAttr nat

text \<open>
  A value stored in \<^verbatim>\<open>byQName\<close>: an \<^verbatim>\<open>Attr\<close> (by its address), an array of them (with
  the array object's own \<^verbatim>\<open>idlvalue\<close> property, which the raw setter can store), or
  \<^verbatim>\<open>undefined\<close> (what reading past the end of an array gives).
\<close>

datatype qentry = Undef | AttrRef nat | Arr "nat list" jsval

text \<open>
  The fields of an \<^verbatim>\<open>Attributes\<close> object, with the store of \<^verbatim>\<open>Attr\<close> objects it refers to
  (\<open>heap\<close>, addresses handed out from \<open>nextRef\<close>) and the trace of hook and mutation calls.
  The two property maps are association lists in insertion order, the order of
  \<^verbatim>\<open>O.keys\<close>.
\<close>

record state =
  len :: nat
  byQName :: "(string \<times> qentry) list"
  byNSAndLName :: "(string \<times> nat) list"
  keys :: "string list"
  heap :: "nat \<Rightarrow> attr"
  nextRef :: nat
  trace :: "event list"

definition Attributes :: state where
  "Attributes =
     \<lparr>len = 0, byQName = [], byNSAndLName = [], keys = [],
      heap = (\<lambda>_. Attr None [] None None), nextRef = 0, trace = []\<rparr>"

text \<open>\<^verbatim>\<open>new impl.Attr(...)\<close>: a fresh object.\<close>

definition alloc :: "attr \<Rightarrow> state \<Rightarrow> nat \<times> state" where
  "alloc obj st = (nextRef st, st\<lparr>heap := (heap st)(nextRef st := obj), nextRef := Suc (nextRef st)\<rparr>)"

text \<open>\<^verbatim>\<open>this.keys = O.keys(this.byNSAndLName); this.length = this.keys.length\<close>.\<close>

definition refresh_keys :: "state \<Rightarrow> state" where
  "refresh_keys st =
     (let ks = map fst (byNSAndLName st) in st\<lparr>keys := ks, len := length ks\<rparr>)"

text \<open>The setter of \<^verbatim>\<open>Attr.value\<close>.\<close>

definition value_set :: "element \<Rightarrow> nat \<Rightarrow> jsval \<Rightarrow> state \<Rightarrow> state" where
  "value_set elt a v st =
     (let this = heap st a in
      if data this = v then st
      else
        let oldval = data this;
            st1 = st\<lparr>heap := (heap st)(a := this\<lparr>data := v\<rparr>)\<rparr>;
            st2 = (case decl this of
                     None \<Rightarrow> st1
                   | Some d \<Rightarrow>
                       (case onchange d of
                          None \<Rightarrow> st1
                        | Some h \<Rightarrow>
                            st1\<lparr>trace := trace st1 @ [OnChange h (Str (localName this)) oldval v]\<rparr>))
        in if rooted elt then st2\<lparr>trace := trace st2 @ [MutateAttr a oldval]\<rparr> else st2)"

definition item :: "nat \<Rightarrow> state \<Rightarrow> nat option" where
  "item index st =
     (if index < length (keys st) then map_of (byNSAndLName st) (keys st ! index)
      else map_of (byNSAndLName st) ''undefined'')"

definition getAttribute :: "element \<Rightarrow> string \<Rightarrow> state \<Rightarrow> error + jsval" where
  "getAttribute elt qname0 st =
     (let qname = (if isHTML elt then toLowerCase qname0 else qname0) in
      case map_of (byQName st) qname of
        None \<Rightarrow> Inr Null
      | Some Undef \<Rightarrow> Inr Null
      | Some (AttrRef a) \<Rightarrow> Inr (data (heap st a))
      | Some (Arr as x) \<Rightarrow>
          (case as of [] \<Rightarrow> Inl TypeError | a # _ \<Rightarrow> Inr (data (heap st a))))"

definition getAttributeNS :: "string option \<Rightarrow> string \<Rightarrow> state \<Rightarrow> jsval" where
  "getAttributeNS ns lname st =
     (case map_of (byNSAndLName st) (concat_str ns @ ''|'' @ lname) of
        None \<Rightarrow> Null
      | Some a \<Rightarrow> data (heap st a))"

definition hasAttribute :: "element \<Rightarrow> string \<Rightarrow> state \<Rightarrow> bool" where
  "hasAttribute elt qname0 st =
     (let qname = (if isHTML elt then toLowerCase qname0 else qname0) in
      map_of (byQName st) qname \<noteq> None)"

definition hasAttributeNS :: "string option \<Rightarrow> string \<Rightarrow> state \<Rightarrow> bool" where
  "hasAttributeNS ns lname st =
     (let key = concat_str ns @ ''|'' @ lname in map_of (byNSAndLName st) key \<noteq> None)"

text \<open>\<^verbatim>\<open>_newAttr\<close>: create an \<^verbatim>\<open>Attr\<close> with no prefix and no namespace and insert it.\<close>

definition newAttr :: "element \<Rightarrow> string \<Rightarrow> state \<Rightarrow> nat \<times> state" where
  "newAttr elt qname st =
     (let (a, st1) = alloc (Attr (map_of (attrDecls elt) qname) qname None None) st;
          st2 = st1\<lparr>byQName := AList.update qname (AttrRef a) (byQName st1)\<rparr>;
          st3 = st2\<lparr>byNSAndLName := AList.update (''|'' @ qname) a (byNSAndLName st2)\<rparr>
      in (a, refresh_keys st3))"

text \<open>
  \<^verbatim>\<open>setAttribute\<close>. The two name predicates \<^verbatim>\<open>isValidName\<close> and \<^verbatim>\<open>isValidQName\<close> are
  defined outside the attribute module and are parameters of the operations that call
  them.
\<close>

definition setAttribute ::
  "(string \<Rightarrow> bool) \<Rightarrow> element \<Rightarrow> string \<Rightarrow> jsval \<Rightarrow> state \<Rightarrow> error + state" where
  "setAttribute isValidName elt qname0 v st =
     (if \<not> isValidName qname0 then Inl InvalidCharacterError
      else
        let qname = (if isHTML elt then toLowerCase qname0 else qname0) in
        if take 5 qname = ''xmlns'' then Inl NamespaceError
        else
          (case map_of (byQName st) qname of
             None \<Rightarrow> (let (a, st1) = newAttr elt qname st in Inr (value_set elt a v st1))
           | Some Undef \<Rightarrow> (let (a, st1) = newAttr elt qname st in Inr (value_set elt a v st1))
           | Some (AttrRef a) \<Rightarrow> Inr (value_set elt a v st)
           | Some (Arr as x) \<Rightarrow>
               (case as of [] \<Rightarrow> Inl TypeError | a # _ \<Rightarrow> Inr (value_set elt a v st))))"

text \<open>\<^verbatim>\<open>_addQName\<close> and \<^verbatim>\<open>_removeQName\<close>.\<close>

definition addQName :: "nat \<Rightarrow> state \<Rightarrow> state" where
  "addQName a st =
     (let qname = attr_name (heap st a) in
      case map_of (byQName st) qname of
        None \<Rightarrow> st\<lparr>byQName := AList.update qname (AttrRef a) (byQName st)\<rparr>
      | Some Undef \<Rightarrow> st\<lparr>byQName := AList.update qname (AttrRef a) (byQName st)\<rparr>
      | Some (Arr as x) \<Rightarrow> st\<lparr>byQName := AList.update qname (Arr (as @ [a]) x) (byQName st)\<rparr>
      | Some (AttrRef existing) \<Rightarrow>
          st\<lparr>byQName := AList.update qname (Arr [existing, a] Undefined) (byQName st)\<rparr>)"

definition removeQName :: "nat \<Rightarrow> state \<Rightarrow> error + state" where
  "removeQName a st =
     (let qname = attr_name (heap st a) in
      case map_of (byQName st) qname of
        Some (Arr target x) \<Rightarrow>
          (case indexOf target a of
             None \<Rightarrow> Inl AssertionError
           | Some idx \<Rightarrow>
               if length target = 2
               then Inr (st\<lparr>byQName := AList.update qname (AttrRef (target ! (1 - idx))) (byQName st)\<rparr>)
               else Inr (st\<lparr>byQName := AList.update qname (Arr (splice1 target idx) x) (byQName st)\<rparr>))
      | Some (AttrRef target) \<Rightarrow>
          if target = a then Inr (st\<lparr>byQName := AList.delete qname (byQName st)\<rparr>)
          else Inl AssertionError
      | Some Undef \<Rightarrow> Inl AssertionError
      | None \<Rightarrow> Inl AssertionError)"

definition setAttributeNS ::
  "(string \<Rightarrow> bool) \<Rightarrow> (string \<Rightarrow> bool) \<Rightarrow> element \<Rightarrow> string option \<Rightarrow> string \<Rightarrow> jsval
     \<Rightarrow> state \<Rightarrow> error + state" where
  "setAttributeNS isValidName isValidQName elt ns0 qname v st =
     (if \<not> isValidName qname then Inl InvalidCharacterError
      else if \<not> isValidQName qname then Inl NamespaceError
      else
        let (pfx, lname) =
              (case indexOf qname CHR '':'' of
                 None \<Rightarrow> (None, qname)
               | Some pos \<Rightarrow> (Some (take pos qname), drop (pos + 1) qname));
            key = concat_str ns0 @ ''|'' @ lname;
            ns = (if ns0 = Some [] then None else ns0)
        in
        if pfx \<noteq> None \<and> ns = None then Inl NamespaceError
        else if pfx = Some ''xml'' \<and> ns \<noteq> Some XML_NAMESPACE then Inl NamespaceError
        else if (qname = ''xmlns'' \<or> pfx = Some ''xmlns'') \<and> ns \<noteq> Some XMLNS_NAMESPACE
          then Inl NamespaceError
        else if ns = Some XMLNS_NAMESPACE \<and> \<not> (qname = ''xmlns'' \<or> pfx = Some ''xmlns'')
          then Inl NamespaceError
        else
          (case map_of (byNSAndLName st) key of
             None \<Rightarrow>
               (let decl = (if truthy pfx then None else map_of (attrDecls elt) lname);
                    (a, st1) = alloc (Attr decl lname pfx ns) st;
                    st2 = st1\<lparr>byNSAndLName := AList.update key a (byNSAndLName st1)\<rparr>;
                    st3 = addQName a (refresh_keys st2)
                in Inr (value_set elt a v st3))
           | Some a \<Rightarrow>
               if prefix (heap st a) \<noteq> pfx then
                 (case removeQName a st of
                    Inl e \<Rightarrow> Inl e
                  | Inr st1 \<Rightarrow>
                      (let st2 = st1\<lparr>heap := (heap st1)(a := (heap st1 a)\<lparr>prefix := pfx\<rparr>)\<rparr>;
                           st3 = addQName a st2
                       in Inr (value_set elt a v st3)))
               else Inr (value_set elt a v st)))"

text \<open>
  The end of \<^verbatim>\<open>removeAttribute\<close> and of \<^verbatim>\<open>removeAttributeNS\<close>: the hook is called as
  \<^verbatim>\<open>onchange(this.element, this.localName, this.idlvalue, null)\<close> where \<^verbatim>\<open>this\<close> is the
  \<^verbatim>\<open>Attributes\<close> object, which has neither property; then the mutation event.
\<close>

definition remove_notify :: "element \<Rightarrow> nat \<Rightarrow> state \<Rightarrow> state" where
  "remove_notify elt a st =
     (let st1 = (case decl (heap st a) of
                   None \<Rightarrow> st
                 | Some d \<Rightarrow>
                     (case onchange d of
                        None \<Rightarrow> st
                      | Some h \<Rightarrow> st\<lparr>trace := trace st @ [OnChange h Undefined Undefined Null]\<rparr>))
      in if rooted elt then st1\<lparr>trace := trace st1 @ [MutateRemoveAttr a]\<rparr> else st1)"

text \<open>
  The part of \<^verbatim>\<open>removeAttribute\<close> after the qualified-name map is updated: \<open>a\<close> is the
  removed attribute.
\<close>

definition removeAttribute_rest :: "element \<Rightarrow> nat \<Rightarrow> state \<Rightarrow> state" where
  "removeAttribute_rest elt a st =
     (let key = or_empty (namespaceURI (heap st a)) @ ''|'' @ localName (heap st a);
          st1 = st\<lparr>byNSAndLName := AList.delete key (byNSAndLName st)\<rparr>
      in remove_notify elt a (refresh_keys st1))"

definition removeAttribute :: "element \<Rightarrow> string \<Rightarrow> state \<Rightarrow> error + state" where
  "removeAttribute elt qname0 st =
     (let qname = (if isHTML elt then toLowerCase qname0 else qname0) in
      case map_of (byQName st) qname of
        None \<Rightarrow> Inr st
      | Some Undef \<Rightarrow> Inr st
      | Some (AttrRef a) \<Rightarrow>
          Inr (removeAttribute_rest elt a (st\<lparr>byQName := AList.delete qname (byQName st)\<rparr>))
      | Some (Arr as x) \<Rightarrow>
          if length as > 2 then
            (case as of
               [] \<Rightarrow> Inl TypeError
             | a # rest \<Rightarrow>
                 Inr (removeAttribute_rest elt a
                        (st\<lparr>byQName := AList.update qname (Arr rest x) (byQName st)\<rparr>)))
          else
            (let second = (case drop 1 as of [] \<Rightarrow> Undef | b # _ \<Rightarrow> AttrRef b);
                 st1 = st\<lparr>byQName := AList.update qname second (byQName st)\<rparr>
             in case as of
                  [] \<Rightarrow> Inl TypeError
                | a # _ \<Rightarrow> Inr (removeAttribute_rest elt a st1)))"

definition removeAttributeNS :: "element \<Rightarrow> string option \<Rightarrow> string \<Rightarrow> state \<Rightarrow> error + state" where
  "removeAttributeNS elt ns lname st =
     (let key = or_empty ns @ ''|'' @ lname in
      case map_of (byNSAndLName st) key of
        None \<Rightarrow> Inr st
      | Some a \<Rightarrow>
          (let st1 = refresh_keys (st\<lparr>byNSAndLName := AList.delete key (byNSAndLName st)\<rparr>)
           in case removeQName a st1 of
                Inl e \<Rightarrow> Inl e
              | Inr st2 \<Rightarrow> Inr (remove_notify elt a st2)))"

text \<open>
  The raw accessors \<^verbatim>\<open>get\<close> and \<^verbatim>\<open>set\<close> of the collection. They read and write the
  property \<^verbatim>\<open>idlvalue\<close> of whatever \<^verbatim>\<open>byQName\<close> holds, an \<^verbatim>\<open>Attr\<close> or an array.
\<close>

definition get_raw :: "string \<Rightarrow> state \<Rightarrow> jsval" where
  "get_raw qname st =
     (case map_of (byQName st) qname of
        None \<Rightarrow> Str []
      | Some Undef \<Rightarrow> Str []
      | Some (AttrRef a) \<Rightarrow> idlvalue (heap st a)
      | Some (Arr as x) \<Rightarrow> x)"

definition set_idlvalue :: "string \<Rightarrow> qentry \<Rightarrow> jsval \<Rightarrow> state \<Rightarrow> state" where
  "set_idlvalue qname e v st =
     (case e of
        AttrRef a \<Rightarrow> st\<lparr>heap := (heap st)(a := (heap st a)\<lparr>idlvalue := v\<rparr>)\<rparr>
      | Arr as x \<Rightarrow> st\<lparr>byQName := AList.update qname (Arr as v) (byQName st)\<rparr>
      | Undef \<Rightarrow> st)"

definition set_raw :: "element \<Rightarrow> string \<Rightarrow> jsval \<Rightarrow> state \<Rightarrow> state" where
  "set_raw elt qname v st =
     (case map_of (byQName st) qname of
        None \<Rightarrow> (let (a, st1) = newAttr elt qname st in set_idlvalue qname (AttrRef a) v st1)
      | Some Undef \<Rightarrow> (let (a, st1) = newAttr elt qname st in set_idlvalue qname (AttrRef a) v st1)
      | Some e \<Rightarrow> set_idlvalue qname e v st)"

section \<open>Reflected attributes\<close>

text \<open>
  Modelled from the spec: the element's own \<^verbatim>\<open>getAttribute\<close> and \<^verbatim>\<open>setAttribute\<close>, which
  the generated accessors call as \<^verbatim>\<open>this.getAttribute(name)\<close> and
  \<^verbatim>\<open>this.setAttribute(name, v)\<close>, belong to the element class and are not part of the
  attribute module. "Typed accessor access and raw attribute-method access both route
  through the same AttributeCollection instance held by the element": they hand their
  arguments to the collection's method of the same name.
\<close>

definition element_getAttribute :: "element \<Rightarrow> string \<Rightarrow> state \<Rightarrow> error + jsval" where
  "element_getAttribute this qname st = getAttribute this qname st"

definition element_setAttribute ::
  "(string \<Rightarrow> bool) \<Rightarrow> element \<Rightarrow> string \<Rightarrow> jsval \<Rightarrow> state \<Rightarrow> error + state" where
  "element_setAttribute isValidName this qname v st = setAttribute isValidName this qname v st"

text \<open>
  An element class as \<^verbatim>\<open>reflectAttribute\<close> sees it: the \<^verbatim>\<open>_attrDecls\<close> table of its
  prototype (own and inherited entries) and the accessor properties defined on the
  prototype itself. \<^verbatim>\<open>O.defineProperty\<close> defines a property that cannot be defined again:
  a second definition under the same name is a \<^verbatim>\<open>TypeError\<close>. Declarations are values
  here: the conversion that \<^verbatim>\<open>reflectAttribute\<close> writes into a declaration object is seen
  in the class it returns, not in other uses of the same object.
\<close>

record accessor =
  getter :: "element \<Rightarrow> state \<Rightarrow> error + jsval"
  setter :: "element \<Rightarrow> jsval \<Rightarrow> state \<Rightarrow> error + state"

record cls =
  attrDeclsP :: "(string \<times> attrdecl) list"
  properties :: "(string \<times> accessor) list"

definition SimpleAttributeDeclaration :: attrdecl where
  "SimpleAttributeDeclaration =
     \<lparr>onchange = None, idlToContent = None, contentToIDL = None, idlname = None,
      boolean = False, legalValues = None\<rparr>"

text \<open>
  The conversion that \<^verbatim>\<open>reflectAttribute\<close> installs for \<^verbatim>\<open>legalValues\<close>:
  \<^verbatim>\<open>function(v) { return declaration.legalValues[v.toLowerCase()] || ""; }\<close>.
  Only a string has the method \<^verbatim>\<open>toLowerCase\<close>.
\<close>

definition legal_contentToIDL :: "(string \<times> string) list \<Rightarrow> jsval \<Rightarrow> error + jsval" where
  "legal_contentToIDL lv v =
     (case v of
        Str s \<Rightarrow>
          (case map_of lv (toLowerCase s) of
             None \<Rightarrow> Inr (Str [])
           | Some c \<Rightarrow> Inr (Str c))
      | Undefined \<Rightarrow> Inl TypeError
      | Null \<Rightarrow> Inl TypeError
      | Bool b \<Rightarrow> Inl TypeError)"

text \<open>The two getters and the two setters that \<^verbatim>\<open>reflectAttribute\<close> chooses from.\<close>

definition reflect_getter :: "attrdecl \<Rightarrow> string \<Rightarrow> element \<Rightarrow> state \<Rightarrow> error + jsval" where
  "reflect_getter declaration name this st =
     (case contentToIDL declaration of
        Some f \<Rightarrow>
          (case element_getAttribute this name st of Inl e \<Rightarrow> Inl e | Inr v \<Rightarrow> f v)
      | None \<Rightarrow>
          (case element_getAttribute this name st of
             Inl e \<Rightarrow> Inl e
           | Inr v \<Rightarrow> Inr (if falsy v then Str [] else v)))"

definition reflect_setter ::
  "(string \<Rightarrow> bool) \<Rightarrow> attrdecl \<Rightarrow> string \<Rightarrow> element \<Rightarrow> jsval \<Rightarrow> state \<Rightarrow> error + state" where
  "reflect_setter isValidName declaration name this v st =
     (case idlToContent declaration of
        Some f \<Rightarrow> element_setAttribute isValidName this name (f v) st
      | None \<Rightarrow> element_setAttribute isValidName this name v st)"

definition reflectAttribute ::
  "(string \<Rightarrow> bool) \<Rightarrow> cls \<Rightarrow> string \<Rightarrow> attrdecl option \<Rightarrow> error + cls" where
  "reflectAttribute isValidName c name declaration0 =
     (let declaration = (case declaration0 of None \<Rightarrow> SimpleAttributeDeclaration | Some d \<Rightarrow> d) in
      if map_of (attrDeclsP c) name \<noteq> None then Inl AssertionError
      else
        (case (case legalValues declaration of
                 None \<Rightarrow> Inr declaration
               | Some lv \<Rightarrow>
                   if contentToIDL declaration = None \<and> idlToContent declaration = None
                   then Inr (declaration\<lparr>contentToIDL := Some (legal_contentToIDL lv)\<rparr>)
                   else Inl AssertionError) of
           Inl e \<Rightarrow> Inl e
         | Inr declaration \<Rightarrow>
             if map_of (properties c)
                  (if truthy (idlname declaration) then or_empty (idlname declaration) else name)
                \<noteq> None
             then Inl TypeError
             else
             Inr (c\<lparr>attrDeclsP := AList.update name declaration (attrDeclsP c),
                    properties :=
                      AList.update (if truthy (idlname declaration) then or_empty (idlname declaration) else name)
                        \<lparr>getter = reflect_getter declaration name,
                         setter = reflect_setter isValidName declaration name\<rparr>
                        (properties c)\<rparr>)))"

text \<open>Reading and assigning a reflected property of an element of class \<open>c\<close>.\<close>

definition property_get :: "cls \<Rightarrow> string \<Rightarrow> element \<Rightarrow> state \<Rightarrow> error + jsval" where
  "property_get c p this st =
     (case map_of (properties c) p of None \<Rightarrow> Inr Undefined | Some acc \<Rightarrow> getter acc this st)"

definition property_set :: "cls \<Rightarrow> string \<Rightarrow> element \<Rightarrow> jsval \<Rightarrow> state \<Rightarrow> error + state" where
  "property_set c p this v st =
     (case map_of (properties c) p of None \<Rightarrow> Inr st | Some acc \<Rightarrow> setter acc this v st)"

section \<open>Name predicates and invariants used in the statements\<close>

text \<open>
  Modelled from the spec: \<^verbatim>\<open>isValidName\<close> and \<^verbatim>\<open>isValidQName\<close> ("isLegalName",
  "isLegalQualifiedName", "per XML Name production rules") are defined outside the
  attribute module. This is the XML Name production on ASCII characters: a name starts
  with a letter, an underscore or a colon and goes on with letters, digits, underscores,
  colons, hyphens and full stops; a qualified name is a name without colon, or two of
  them around one colon. The general theorems hold for any pair of predicates; these two
  are the instance they are evaluated at.
\<close>

definition name_start_char :: "char \<Rightarrow> bool" where
  "name_start_char c =
     (c \<in> set ''ABCDEFGHIJKLMNOPQRSTUVWXYZabcdefghijklmnopqrstuvwxyz_:'')"

definition name_char :: "char \<Rightarrow> bool" where
  "name_char c = (name_start_char c \<or> c \<in> set ''0123456789-.'')"

definition xml_name :: "string \<Rightarrow> bool" where
  "xml_name s = (case s of [] \<Rightarrow> False | c # cs \<Rightarrow> name_start_char c \<and> list_all name_char cs)"

definition xml_ncname :: "string \<Rightarrow> bool" where
  "xml_ncname s = (xml_name s \<and> indexOf s CHR '':'' = None)"

definition xml_qname :: "string \<Rightarrow> bool" where
  "xml_qname s =
     (case indexOf s CHR '':'' of
        None \<Rightarrow> xml_name s
      | Some pos \<Rightarrow> xml_ncname (take pos s) \<and> xml_ncname (drop (pos + 1) s))"

text \<open>
  The nodes of the three structures: the namespace index, the qualified-name index and
  the ordered sequence read through \<^verbatim>\<open>item\<close>.
\<close>

definition entry_nodes :: "qentry \<Rightarrow> nat list" where
  "entry_nodes e = (case e of Undef \<Rightarrow> [] | AttrRef a \<Rightarrow> [a] | Arr as x \<Rightarrow> as)"

definition ns_nodes :: "state \<Rightarrow> nat set" where
  "ns_nodes st = set (map snd (byNSAndLName st))"

definition qname_nodes :: "state \<Rightarrow> nat set" where
  "qname_nodes st = set (concat (map (\<lambda>kv. entry_nodes (snd kv)) (byQName st)))"

definition sequence_nodes :: "state \<Rightarrow> nat set" where
  "sequence_nodes st = set (concat (map (\<lambda>i. case item i st of None \<Rightarrow> [] | Some a \<Rightarrow> [a]) [0..<len st]))"

definition indices_agree :: "state \<Rightarrow> bool" where
  "indices_agree st =
     (ns_nodes st = qname_nodes st \<and> sequence_nodes st = ns_nodes st \<and>
      len st = length (byNSAndLName st))"

text \<open>
  Every value of the qualified-name index is an \<^verbatim>\<open>Attr\<close> or an array of at least two of
  them.
\<close>

definition bucket_ok :: "qentry \<Rightarrow> bool" where
  "bucket_ok e = (case e of Undef \<Rightarrow> False | AttrRef a \<Rightarrow> True | Arr as x \<Rightarrow> 2 \<le> length as)"

definition buckets_ok :: "state \<Rightarrow> bool" where
  "buckets_ok st = list_all (\<lambda>kv. bucket_ok (snd kv)) (byQName st)"

text \<open>
  The states of a collection: a new one, and what the public operations, the raw setter
  and an assignment to the \<^verbatim>\<open>value\<close> of an item make of one.
\<close>

inductive reachable :: "(string \<Rightarrow> bool) \<Rightarrow> (string \<Rightarrow> bool) \<Rightarrow> element \<Rightarrow> state \<Rightarrow> bool"
  for isValidName :: "string \<Rightarrow> bool" and isValidQName :: "string \<Rightarrow> bool" and elt :: element
where
  r_new: "reachable isValidName isValidQName elt Attributes"
| r_setAttribute:
    "reachable isValidName isValidQName elt st \<Longrightarrow>
     setAttribute isValidName elt qname v st = Inr st' \<Longrightarrow>
     reachable isValidName isValidQName elt st'"
| r_setAttributeNS:
    "reachable isValidName isValidQName elt st \<Longrightarrow>
     setAttributeNS isValidName isValidQName elt ns qname v st = Inr st' \<Longrightarrow>
     reachable isValidName isValidQName elt st'"
| r_removeAttribute:
    "reachable isValidName isValidQName elt st \<Longrightarrow>
     removeAttribute elt qname st = Inr st' \<Longrightarrow>
     reachable isValidName isValidQName elt st'"
| r_removeAttributeNS:
    "reachable isValidName isValidQName elt st \<Longrightarrow>
     removeAttributeNS elt ns lname st = Inr st' \<Longrightarrow>
     reachable isValidName isValidQName elt st'"
| r_set_raw:
    "reachable isValidName isValidQName elt st \<Longrightarrow>
     reachable isValidName isValidQName elt (set_raw elt qname v st)"
| r_value_set:
    "reachable isValidName isValidQName elt st \<Longrightarrow>
     item i st = Some a \<Longrightarrow>
     reachable isValidName isValidQName elt (value_set elt a v st)"

section \<open>Scenarios\<close>

text \<open>
  A sequence of calls on one collection stops at the first exception; \<open>observe\<close> reads
  the state it leaves, \<open>and_then\<close> makes a call that can itself throw.
\<close>

fun run :: "(state \<Rightarrow> error + state) list \<Rightarrow> state \<Rightarrow> error + state" where
  "run [] st = Inr st"
| "run (f # fs) st = (case f st of Inl e \<Rightarrow> Inl e | Inr st' \<Rightarrow> run fs st')"

definition observe :: "error + state \<Rightarrow> (state \<Rightarrow> 'a) \<Rightarrow> error + 'a" where
  "observe r f = (case r of Inl e \<Rightarrow> Inl e | Inr st \<Rightarrow> Inr (f st))"

definition and_then :: "error + state \<Rightarrow> (state \<Rightarrow> error + 'a) \<Rightarrow> error + 'a" where
  "and_then r f = (case r of Inl e \<Rightarrow> Inl e | Inr st \<Rightarrow> f st)"

text \<open>
  The elements of the scenarios: an HTML element and an XML element of a class with no
  declarations, and an HTML element whose class declares an \<^verbatim>\<open>onchange\<close> hook for
  \<^verbatim>\<open>id\<close>.
\<close>

definition html_element :: element where
  "html_element = \<lparr>isHTML = True, rooted = False, attrDecls = []\<rparr>"

definition xml_element :: element where
  "xml_element = \<lparr>isHTML = False, rooted = False, attrDecls = []\<rparr>"

definition id_declaration :: attrdecl where
  "id_declaration = SimpleAttributeDeclaration\<lparr>onchange := Some 0\<rparr>"

definition id_element :: element where
  "id_element = \<lparr>isHTML = True, rooted = False, attrDecls = [(''id'', id_declaration)]\<rparr>"

text \<open>
  The classes of the reflected scenarios: \<^verbatim>\<open>reflectAttribute(c, "disabled", {boolean: true})\<close>
  and \<^verbatim>\<open>reflectAttribute(c, "dir", {legalValues: {ltr: "ltr", rtl: "rtl", auto: "auto"}})\<close>
  on a class with no declarations yet, and an HTML element of each class.
\<close>

definition empty_class :: cls where
  "empty_class = \<lparr>attrDeclsP = [], properties = []\<rparr>"

definition disabled_class :: "error + cls" where
  "disabled_class =
     reflectAttribute xml_name empty_class ''disabled''
       (Some (SimpleAttributeDeclaration\<lparr>boolean := True\<rparr>))"

definition dir_class :: "error + cls" where
  "dir_class =
     reflectAttribute xml_name empty_class ''dir''
       (Some (SimpleAttributeDeclaration
                \<lparr>legalValues := Some [(''ltr'', ''ltr''), (''rtl'', ''rtl''), (''auto'', ''auto'')]\<rparr>))"

definition element_of :: "cls \<Rightarrow> element" where
  "element_of c = \<lparr>isHTML = True, rooted = False, attrDecls = attrDeclsP c\<rparr>"

text \<open>
  Assigning and reading a reflected property on an element of a class that
  \<^verbatim>\<open>reflectAttribute\<close> has set up.
\<close>

definition assign :: "error + cls \<Rightarrow> string \<Rightarrow> jsval \<Rightarrow> state \<Rightarrow> error + state" where
  "assign rc p v st =
     (case rc of Inl e \<Rightarrow> Inl e | Inr c \<Rightarrow> property_set c p (element_of c) v st)"

definition read :: "error + cls \<Rightarrow> string \<Rightarrow> state \<Rightarrow> error + jsval" where
  "read rc p st =
     (case rc of Inl e \<Rightarrow> Inl e | Inr c \<Rightarrow> property_get c p (element_of c) st)"

text \<open>The raw setter as a step of a scenario (it cannot throw).\<close>

definition set_raw_step :: "element \<Rightarrow> string \<Rightarrow> jsval \<Rightarrow> state \<Rightarrow> error + state" where
  "set_raw_step elt qname v st = Inr (set_raw elt qname v st)"

section \<open>Facts about the operations\<close>

lemma value_set_fields [simp]:
  "byQName (value_set elt a v st) = byQName st"
  "byNSAndLName (value_set elt a v st) = byNSAndLName st"
  "keys (value_set elt a v st) = keys st"
  "len (value_set elt a v st) = len st"
  "nextRef (value_set elt a v st) = nextRef st"
  by (simp_all add: value_set_def Let_def split: option.splits)

lemma heap_value_set [simp]:
  "heap (value_set elt a v st) = (heap st)(a := (heap st a)\<lparr>data := v\<rparr>)"
  by (auto simp: value_set_def Let_def split: option.splits)

lemma remove_notify_fields [simp]:
  "byQName (remove_notify elt a st) = byQName st"
  "byNSAndLName (remove_notify elt a st) = byNSAndLName st"
  "keys (remove_notify elt a st) = keys st"
  "len (remove_notify elt a st) = len st"
  "nextRef (remove_notify elt a st) = nextRef st"
  "heap (remove_notify elt a st) = heap st"
  by (simp_all add: remove_notify_def Let_def split: option.splits)

lemma byQName_newAttr:
  "newAttr elt qname st = (a, st1) \<Longrightarrow> byQName st1 = AList.update qname (AttrRef a) (byQName st)"
  by (auto simp: newAttr_def alloc_def refresh_keys_def Let_def)

lemma newAttr_lookup:
  "newAttr elt qname st = (a, st1) \<Longrightarrow> map_of (byQName st1) qname = Some (AttrRef a)"
  by (drule byQName_newAttr) (simp add: update_conv')

lemma length_splice1: "idx < length xs \<Longrightarrow> length (splice1 xs idx) = length xs - 1"
  by (auto simp: splice1_def)

lemma indexOf_less: "indexOf xs c = Some i \<Longrightarrow> i < length xs"
  by (induction xs arbitrary: i) (auto split: if_splits)

subsection \<open>The arrays of the qualified-name index never get shorter than two\<close>

lemma list_all_update: "list_all P al \<Longrightarrow> P (k, v) \<Longrightarrow> list_all P (AList.update k v al)"
  by (induction al) auto

lemma list_all_delete: "list_all P al \<Longrightarrow> list_all P (AList.delete k al)"
  by (induction al) auto

lemma map_of_list_all: "map_of al k = Some e \<Longrightarrow> list_all P al \<Longrightarrow> P (k, e)"
  by (auto dest: map_of_SomeD simp: list_all_iff)

lemma bucket_okD: "buckets_ok st \<Longrightarrow> map_of (byQName st) k = Some e \<Longrightarrow> bucket_ok e"
  using map_of_list_all [of "byQName st" k e "\<lambda>kv. bucket_ok (snd kv)"]
  by (simp add: buckets_ok_def)

lemma buckets_ok_update:
  "buckets_ok st \<Longrightarrow> bucket_ok e \<Longrightarrow> buckets_ok (st\<lparr>byQName := AList.update k e (byQName st)\<rparr>)"
  by (simp add: buckets_ok_def list_all_update)

lemma buckets_ok_delete:
  "buckets_ok st \<Longrightarrow> buckets_ok (st\<lparr>byQName := AList.delete k (byQName st)\<rparr>)"
  by (simp add: buckets_ok_def list_all_delete)

lemma buckets_ok_other_fields [simp]:
  "buckets_ok (st\<lparr>heap := h\<rparr>) = buckets_ok st"
  "buckets_ok (st\<lparr>trace := t\<rparr>) = buckets_ok st"
  "buckets_ok (st\<lparr>byNSAndLName := m\<rparr>) = buckets_ok st"
  "buckets_ok (refresh_keys st) = buckets_ok st"
  "buckets_ok (value_set elt a v st) = buckets_ok st"
  "buckets_ok (remove_notify elt a st) = buckets_ok st"
  by (simp_all add: buckets_ok_def refresh_keys_def Let_def)

lemma buckets_ok_removeAttribute_rest [simp]:
  "buckets_ok (removeAttribute_rest elt a st) = buckets_ok st"
  by (simp add: removeAttribute_rest_def Let_def)

lemma buckets_ok_alloc: "alloc obj st = (a, st1) \<Longrightarrow> buckets_ok st1 = buckets_ok st"
  by (auto simp: alloc_def buckets_ok_def)

lemma buckets_ok_newAttr:
  "buckets_ok st \<Longrightarrow> newAttr elt qname st = (a, st1) \<Longrightarrow> buckets_ok st1"
  by (drule byQName_newAttr) (simp add: buckets_ok_def list_all_update bucket_ok_def)

lemma buckets_ok_addQName: "buckets_ok st \<Longrightarrow> buckets_ok (addQName a st)"
  unfolding addQName_def Let_def
  by (auto split: option.splits qentry.splits intro!: buckets_ok_update dest: bucket_okD
      simp: bucket_ok_def)

lemma buckets_ok_removeQName:
  assumes "buckets_ok st" and "removeQName a st = Inr st'"
  shows "buckets_ok st'"
proof -
  have b: "bucket_ok e" if "map_of (byQName st) (attr_name (heap st a)) = Some e" for e
    using assms(1) that by (rule bucket_okD)
  show ?thesis
    using assms b unfolding removeQName_def Let_def
    by (auto split: option.splits qentry.splits if_splits
        intro!: buckets_ok_update buckets_ok_delete
        dest!: indexOf_less simp: bucket_ok_def length_splice1)
qed

lemma buckets_ok_setAttribute:
  "buckets_ok st \<Longrightarrow> setAttribute isValidName elt qname v st = Inr st' \<Longrightarrow> buckets_ok st'"
  unfolding setAttribute_def Let_def
  by (auto split: option.splits qentry.splits if_splits list.splits prod.splits
      dest: buckets_ok_newAttr)

lemma buckets_ok_setAttributeNS:
  "buckets_ok st \<Longrightarrow> setAttributeNS isValidName isValidQName elt ns qname v st = Inr st' \<Longrightarrow>
   buckets_ok st'"
  unfolding setAttributeNS_def Let_def
  by (auto split: option.splits if_splits prod.splits sum.splits
      simp: buckets_ok_addQName buckets_ok_alloc dest: buckets_ok_removeQName)

lemma buckets_ok_removeAttribute:
  assumes "buckets_ok st" and "removeAttribute elt qname st = Inr st'"
  shows "buckets_ok st'"
proof -
  have b: "bucket_ok e" if "map_of (byQName st) k = Some e" for e k
    using assms(1) that by (rule bucket_okD)
  show ?thesis
    using assms b [of "toLowerCase qname"] b [of qname] unfolding removeAttribute_def Let_def
    by (auto split: option.splits qentry.splits if_splits list.splits
        intro!: buckets_ok_update buckets_ok_delete simp: bucket_ok_def)
qed

lemma buckets_ok_removeAttributeNS:
  "buckets_ok st \<Longrightarrow> removeAttributeNS elt ns lname st = Inr st' \<Longrightarrow> buckets_ok st'"
  unfolding removeAttributeNS_def Let_def
  by (auto split: option.splits sum.splits dest!: buckets_ok_removeQName [rotated])

lemma buckets_ok_set_idlvalue:
  assumes "buckets_ok st" and "map_of (byQName st) qname = Some e"
  shows "buckets_ok (set_idlvalue qname e v st)"
  using assms bucket_okD [OF assms] unfolding set_idlvalue_def
  by (auto split: qentry.splits intro!: buckets_ok_update simp: bucket_ok_def)

lemma buckets_ok_set_raw: "buckets_ok st \<Longrightarrow> buckets_ok (set_raw elt qname v st)"
  unfolding set_raw_def Let_def
  by (auto split: option.splits qentry.splits prod.splits simp: buckets_ok_set_idlvalue)
     (auto simp: set_idlvalue_def dest: buckets_ok_newAttr)

lemma reachable_buckets_ok: "reachable isValidName isValidQName elt st \<Longrightarrow> buckets_ok st"
proof (induction rule: reachable.induct)
  case r_new
  show ?case by (simp add: buckets_ok_def Attributes_def)
qed (auto dest: buckets_ok_setAttribute buckets_ok_setAttributeNS buckets_ok_removeAttribute
      buckets_ok_removeAttributeNS simp: buckets_ok_set_raw)

subsection \<open>Unfolding the operations on a given input\<close>

lemmas operations =
  setAttribute_def setAttributeNS_def removeAttribute_def removeAttributeNS_def
  getAttribute_def getAttributeNS_def hasAttribute_def hasAttributeNS_def newAttr_def alloc_def
  refresh_keys_def addQName_def removeQName_def removeAttribute_rest_def
  get_raw_def set_raw_def set_raw_step_def set_idlvalue_def Attributes_def Attr_def attr_name_def
  observe_def and_then_def toLowerCase_def lower_char_def
  concat_str_def or_empty_def or_null_def truthy_def Let_def

lemmas notifications = value_set_def remove_notify_def

lemmas fixtures =
  html_element_def xml_element_def id_element_def id_declaration_def
  SimpleAttributeDeclaration_def xml_name_def xml_qname_def xml_ncname_def
  name_start_char_def name_char_def XML_NAMESPACE_def XMLNS_NAMESPACE_def

lemmas reflection =
  assign_def read_def disabled_class_def dir_class_def reflectAttribute_def empty_class_def
  element_of_def property_get_def property_set_def reflect_getter_def reflect_setter_def
  element_getAttribute_def element_setAttribute_def legal_contentToIDL_def falsy_def

lemmas index_nodes =
  indices_agree_def ns_nodes_def qname_nodes_def sequence_nodes_def item_def entry_nodes_def

section \<open>The claims\<close>

text \<open>
  C1, as claimed: for every valid qualified name \<open>q\<close> and every string \<open>v\<close>,
  \<^verbatim>\<open>setAttribute(q, v)\<close> and then \<^verbatim>\<open>getAttribute(q)\<close> give \<open>v\<close>. On the code the names
  \<^verbatim>\<open>xmlnsfoo\<close> and \<^verbatim>\<open>xmlns:a\<close> are valid names and valid qualified names, and
  \<^verbatim>\<open>setAttribute\<close> throws \<^verbatim>\<open>NamespaceError\<close> on them: nothing is stored, and
  \<^verbatim>\<open>getAttribute\<close> on the collection is \<^verbatim>\<open>null\<close>.
\<close>

theorem setAttribute_rejects_valid_xmlns_names:
  "xml_name ''xmlnsfoo'' \<and> xml_qname ''xmlnsfoo'' \<and>
   setAttribute xml_name xml_element ''xmlnsfoo'' (Str ''v'') Attributes = Inl NamespaceError \<and>
   and_then (setAttribute xml_name xml_element ''xmlnsfoo'' (Str ''v'') Attributes)
     (getAttribute xml_element ''xmlnsfoo'') = Inl NamespaceError \<and>
   getAttribute xml_element ''xmlnsfoo'' Attributes = Inr Null \<and>
   xml_name ''xmlns:a'' \<and> xml_qname ''xmlns:a'' \<and>
   setAttribute xml_name html_element ''xmlns:a'' (Str ''v'') Attributes = Inl NamespaceError \<and>
   getAttribute html_element ''xmlns:a'' Attributes = Inr Null"
  by (simp add: operations notifications fixtures)

text \<open>
  C1, amended: for every valid name \<open>q\<close> and every string \<open>v\<close>, on any state
  \<^verbatim>\<open>setAttribute(q, v)\<close> throws \<^verbatim>\<open>NamespaceError\<close> when the case-normalized \<open>q\<close> begins
  with \<^verbatim>\<open>xmlns\<close>; otherwise, on every collection the operations can build, it returns and
  \<^verbatim>\<open>getAttribute(q)\<close> then gives \<open>v\<close>. Both operations lower-case \<open>q\<close> when the element is
  an HTML element.
\<close>

theorem setAttribute_then_getAttribute:
  assumes "isValidName q"
  shows "(take 5 (if isHTML elt then toLowerCase q else q) = ''xmlns'' \<longrightarrow>
            setAttribute isValidName elt q (Str v) st = Inl NamespaceError) \<and>
         (take 5 (if isHTML elt then toLowerCase q else q) \<noteq> ''xmlns'' \<and>
          reachable isValidName isValidQName elt st \<longrightarrow>
            (\<exists>st'. setAttribute isValidName elt q (Str v) st = Inr st' \<and>
                   getAttribute elt q st' = Inr (Str v)))"
proof (intro conjI impI)
  assume "take 5 (if isHTML elt then toLowerCase q else q) = ''xmlns''"
  with assms show "setAttribute isValidName elt q (Str v) st = Inl NamespaceError"
    by (simp add: setAttribute_def)
next
  let ?q = "if isHTML elt then toLowerCase q else q"
  assume h: "take 5 ?q \<noteq> ''xmlns'' \<and> reachable isValidName isValidQName elt st"
  then have x: "take 5 ?q \<noteq> ''xmlns''" and r: "reachable isValidName isValidQName elt st"
    by simp_all
  have b: "bucket_ok e" if "map_of (byQName st) ?q = Some e" for e
    using reachable_buckets_ok [OF r] that by (rule bucket_okD)
  show "\<exists>st'. setAttribute isValidName elt q (Str v) st = Inr st' \<and>
              getAttribute elt q st' = Inr (Str v)"
  proof (cases "map_of (byQName st) ?q")
    case None
    obtain a st1 where n: "newAttr elt ?q st = (a, st1)" by (cases "newAttr elt ?q st")
    from newAttr_lookup [OF n] None n assms x show ?thesis
      by (simp add: setAttribute_def getAttribute_def)
  next
    case (Some e)
    with b have "bucket_ok e" by simp
    with Some assms x show ?thesis
      by (cases e) (auto simp: setAttribute_def getAttribute_def bucket_ok_def split: list.splits)
  qed
qed

theorem setAttribute_then_getAttribute_witness:
  "xml_name ''Title'' \<and>
   take 5 (if isHTML html_element then toLowerCase ''Title'' else ''Title'') \<noteq> ''xmlns'' \<and>
   reachable xml_name xml_qname html_element Attributes \<and>
   and_then (setAttribute xml_name html_element ''Title'' (Str ''Main'') Attributes)
     (getAttribute html_element ''Title'') = Inr (Str ''Main'') \<and>
   xml_name ''XmlnsTitle'' \<and>
   take 5 (if isHTML html_element then toLowerCase ''XmlnsTitle'' else ''XmlnsTitle'') = ''xmlns'' \<and>
   setAttribute xml_name html_element ''XmlnsTitle'' (Str ''Main'') Attributes = Inl NamespaceError"
proof -
  have r: "reachable xml_name xml_qname html_element Attributes" by (rule reachable.r_new)
  have n: "xml_name ''Title''" "xml_name ''XmlnsTitle''" by (simp_all add: fixtures)
  have x: "take 5 (if isHTML html_element then toLowerCase ''Title'' else ''Title'') \<noteq> ''xmlns''"
    by (simp add: fixtures toLowerCase_def lower_char_def)
  have y: "take 5 (if isHTML html_element then toLowerCase ''XmlnsTitle'' else ''XmlnsTitle'') = ''xmlns''"
    by (simp add: fixtures toLowerCase_def lower_char_def)
  from setAttribute_then_getAttribute
         [where isValidName = xml_name and isValidQName = xml_qname and q = "''Title''"
            and elt = html_element and v = "''Main''" and st = Attributes, OF n(1)]
    setAttribute_then_getAttribute
         [where isValidName = xml_name and isValidQName = xml_qname and q = "''XmlnsTitle''"
            and elt = html_element and v = "''Main''" and st = Attributes, OF n(2)]
    r n x y
  show ?thesis by (auto simp: and_then_def)
qed

text \<open>
  C2. Claimed: every public mutating operation keeps the namespace index, the
  qualified-name index and the ordered sequence on the same set of nodes. On the code:
  \<^verbatim>\<open>setAttributeNS(null, "foo", "x")\<close> on a new collection files the node under the key
  \<^verbatim>\<open>null|foo\<close> (the key is built before the namespace is normalized), and the three
  structures agree; \<^verbatim>\<open>removeAttribute("foo")\<close> then takes the node out of the
  qualified-name index and deletes the key \<^verbatim>\<open>|foo\<close>, which is not there, so the node
  stays in the namespace index and in the sequence.
\<close>

theorem removeAttribute_breaks_agreement:
  "observe (run [setAttributeNS xml_name xml_qname xml_element None ''foo'' (Str ''x'')] Attributes)
     indices_agree = Inr True \<and>
   observe (run [setAttributeNS xml_name xml_qname xml_element None ''foo'' (Str ''x''),
                 removeAttribute xml_element ''foo''] Attributes)
     indices_agree = Inr False \<and>
   observe (run [setAttributeNS xml_name xml_qname xml_element None ''foo'' (Str ''x''),
                 removeAttribute xml_element ''foo''] Attributes)
     byQName = Inr [] \<and>
   observe (run [setAttributeNS xml_name xml_qname xml_element None ''foo'' (Str ''x''),
                 removeAttribute xml_element ''foo''] Attributes)
     byNSAndLName = Inr [(''null|foo'', 0)] \<and>
   observe (run [setAttributeNS xml_name xml_qname xml_element None ''foo'' (Str ''x''),
                 removeAttribute xml_element ''foo''] Attributes)
     (item 0) = Inr (Some 0)"
  by (simp add: operations notifications fixtures index_nodes)

text \<open>
  C3, as claimed: \<^verbatim>\<open>setAttributeNS(nsA, "foo", "x")\<close> and then \<^verbatim>\<open>setAttribute("foo", "y")\<close>
  give two nodes under the qualified name \<^verbatim>\<open>foo\<close>. On the code the second call finds the
  first node by its qualified name and overwrites its value: there is one node, with value
  \<^verbatim>\<open>y\<close>, and \<^verbatim>\<open>removeAttribute("foo")\<close> leaves nothing under the namespaced key.
\<close>

theorem setNS_then_set_is_one_node:
  "observe (run [setAttributeNS xml_name xml_qname xml_element (Some ''urn:a'') ''foo'' (Str ''x''),
                 setAttribute xml_name xml_element ''foo'' (Str ''y'')] Attributes)
     byQName = Inr [(''foo'', AttrRef 0)] \<and>
   observe (run [setAttributeNS xml_name xml_qname xml_element (Some ''urn:a'') ''foo'' (Str ''x''),
                 setAttribute xml_name xml_element ''foo'' (Str ''y'')] Attributes)
     len = Inr 1 \<and>
   and_then (run [setAttributeNS xml_name xml_qname xml_element (Some ''urn:a'') ''foo'' (Str ''x''),
                  setAttribute xml_name xml_element ''foo'' (Str ''y'')] Attributes)
     (getAttribute xml_element ''foo'') = Inr (Str ''y'') \<and>
   observe (run [setAttributeNS xml_name xml_qname xml_element (Some ''urn:a'') ''foo'' (Str ''x''),
                 setAttribute xml_name xml_element ''foo'' (Str ''y''),
                 removeAttribute xml_element ''foo''] Attributes)
     (getAttributeNS (Some ''urn:a'') ''foo'') = Inr Null \<and>
   observe (run [setAttributeNS xml_name xml_qname xml_element (Some ''urn:a'') ''foo'' (Str ''x''),
                 setAttribute xml_name xml_element ''foo'' (Str ''y''),
                 removeAttribute xml_element ''foo''] Attributes)
     len = Inr 0"
  by (simp add: operations notifications fixtures)

text \<open>
  C3, amended: in the other order, \<^verbatim>\<open>setAttribute("foo", "y")\<close> and then
  \<^verbatim>\<open>setAttributeNS(nsA, "foo", "x")\<close> with a non-empty namespace other than the XMLNS
  namespace, a new collection holds two nodes under the qualified name \<^verbatim>\<open>foo\<close>;
  \<^verbatim>\<open>getAttribute("foo")\<close> gives the value of the first one, \<^verbatim>\<open>y\<close>;
  \<^verbatim>\<open>removeAttribute("foo")\<close> removes that node only, and the other is still found under
  its namespaced key with its value \<^verbatim>\<open>x\<close>.
\<close>

theorem set_then_setNS_two_nodes:
  assumes "isValidName ''foo''" and "isValidQName ''foo''"
    and "nsA \<noteq> []" and "nsA \<noteq> XMLNS_NAMESPACE"
  shows
    "observe (run [setAttribute isValidName elt ''foo'' (Str ''y''),
                   setAttributeNS isValidName isValidQName elt (Some nsA) ''foo'' (Str ''x'')]
                Attributes)
       byQName = Inr [(''foo'', Arr [0, 1] Undefined)] \<and>
     observe (run [setAttribute isValidName elt ''foo'' (Str ''y''),
                   setAttributeNS isValidName isValidQName elt (Some nsA) ''foo'' (Str ''x'')]
                Attributes)
       len = Inr 2 \<and>
     and_then (run [setAttribute isValidName elt ''foo'' (Str ''y''),
                    setAttributeNS isValidName isValidQName elt (Some nsA) ''foo'' (Str ''x'')]
                 Attributes)
       (getAttribute elt ''foo'') = Inr (Str ''y'') \<and>
     observe (run [setAttribute isValidName elt ''foo'' (Str ''y''),
                   setAttributeNS isValidName isValidQName elt (Some nsA) ''foo'' (Str ''x''),
                   removeAttribute elt ''foo''] Attributes)
       byQName = Inr [(''foo'', AttrRef 1)] \<and>
     observe (run [setAttribute isValidName elt ''foo'' (Str ''y''),
                   setAttributeNS isValidName isValidQName elt (Some nsA) ''foo'' (Str ''x''),
                   removeAttribute elt ''foo''] Attributes)
       byNSAndLName = Inr [(nsA @ ''|foo'', 1)] \<and>
     observe (run [setAttribute isValidName elt ''foo'' (Str ''y''),
                   setAttributeNS isValidName isValidQName elt (Some nsA) ''foo'' (Str ''x''),
                   removeAttribute elt ''foo''] Attributes)
       (getAttributeNS (Some nsA) ''foo'') = Inr (Str ''x'')"
  using assms by (simp add: operations)

theorem set_then_setNS_two_nodes_witness:
  "xml_name ''foo'' \<and> xml_qname ''foo'' \<and> ''urn:a'' \<noteq> [] \<and> ''urn:a'' \<noteq> XMLNS_NAMESPACE \<and>
   observe (run [setAttribute xml_name xml_element ''foo'' (Str ''y''),
                 setAttributeNS xml_name xml_qname xml_element (Some ''urn:a'') ''foo'' (Str ''x'')]
              Attributes)
     len = Inr 2 \<and>
   and_then (run [setAttribute xml_name xml_element ''foo'' (Str ''y''),
                  setAttributeNS xml_name xml_qname xml_element (Some ''urn:a'') ''foo'' (Str ''x'')]
               Attributes)
     (getAttribute xml_element ''foo'') = Inr (Str ''y'') \<and>
   observe (run [setAttribute xml_name xml_element ''foo'' (Str ''y''),
                 setAttributeNS xml_name xml_qname xml_element (Some ''urn:a'') ''foo'' (Str ''x''),
                 removeAttribute xml_element ''foo''] Attributes)
     (getAttributeNS (Some ''urn:a'') ''foo'') = Inr (Str ''x'')"
proof -
  have h: "xml_name ''foo''" "xml_qname ''foo''" "''urn:a'' \<noteq> []" "''urn:a'' \<noteq> XMLNS_NAMESPACE"
    by (simp_all add: fixtures)
  from set_then_setNS_two_nodes [of xml_name xml_qname "''urn:a''" xml_element, OF h] h
  show ?thesis by simp
qed

text \<open>
  C4. Claimed: removing the only node of a local name whose declaration has an
  \<^verbatim>\<open>onchange\<close> hook calls the hook once with the node's local name, its value and an
  absent new value. On the code: after \<^verbatim>\<open>setAttribute("id", "a")\<close> (whose hook call is the
  first entry of the trace), \<^verbatim>\<open>removeAttribute("id")\<close> and \<^verbatim>\<open>removeAttributeNS(null, "id")\<close>
  call the hook once, with \<^verbatim>\<open>undefined\<close> for the local name and \<^verbatim>\<open>undefined\<close> for the old
  value: the arguments are read from the collection, not from the removed node.
\<close>

theorem remove_hook_arguments_undefined:
  "observe (run [setAttribute xml_name id_element ''id'' (Str ''a''),
                 removeAttribute id_element ''id''] Attributes)
     trace = Inr [OnChange 0 (Str ''id'') Undefined (Str ''a''),
                  OnChange 0 Undefined Undefined Null] \<and>
   observe (run [setAttribute xml_name id_element ''id'' (Str ''a''),
                 removeAttributeNS id_element None ''id''] Attributes)
     trace = Inr [OnChange 0 (Str ''id'') Undefined (Str ''a''),
                  OnChange 0 Undefined Undefined Null]"
  by (simp add: operations notifications fixtures)

text \<open>
  C5. Claimed: the raw setter goes through the setter of \<^verbatim>\<open>Attr.value\<close>, so that the
  stored value becomes \<open>v\<close> and the hook is called once. On the code: it assigns the
  property \<^verbatim>\<open>idlvalue\<close>. On the collection holding \<^verbatim>\<open>id\<close> with value \<^verbatim>\<open>a\<close>, the raw
  \<^verbatim>\<open>set("id", "b")\<close> leaves \<^verbatim>\<open>getAttribute("id")\<close> at \<^verbatim>\<open>a\<close> and calls no hook (the trace
  holds the call of the first \<^verbatim>\<open>setAttribute\<close> only); on a new collection it creates a node
  whose value is \<^verbatim>\<open>undefined\<close>.
\<close>

theorem set_raw_bypasses_value:
  "and_then (run [setAttribute xml_name id_element ''id'' (Str ''a''),
                  set_raw_step id_element ''id'' (Str ''b'')] Attributes)
     (getAttribute id_element ''id'') = Inr (Str ''a'') \<and>
   observe (run [setAttribute xml_name id_element ''id'' (Str ''a''),
                 set_raw_step id_element ''id'' (Str ''b'')] Attributes)
     trace = Inr [OnChange 0 (Str ''id'') Undefined (Str ''a'')] \<and>
   and_then (run [set_raw_step id_element ''id'' (Str ''b'')] Attributes)
     (getAttribute id_element ''id'') = Inr Undefined \<and>
   observe (run [set_raw_step id_element ''id'' (Str ''b'')] Attributes) trace = Inr []"
  by (simp add: operations notifications fixtures)

text \<open>
  C6. Claimed: the raw getter returns the value of the node, so \<open>v\<close> after
  \<^verbatim>\<open>setAttribute(q, v)\<close>, and the empty string when there is no node. On the code: it
  returns the property \<^verbatim>\<open>idlvalue\<close>, which \<^verbatim>\<open>setAttribute\<close> never stores. After
  \<^verbatim>\<open>setAttribute("id", "a")\<close> the raw \<^verbatim>\<open>get("id")\<close> is \<^verbatim>\<open>undefined\<close> while
  \<^verbatim>\<open>getAttribute("id")\<close> is \<^verbatim>\<open>a\<close>; on a new collection it is the empty string.
\<close>

theorem get_raw_after_setAttribute_undefined:
  "observe (run [setAttribute xml_name html_element ''id'' (Str ''a'')] Attributes)
     (get_raw ''id'') = Inr Undefined \<and>
   and_then (run [setAttribute xml_name html_element ''id'' (Str ''a'')] Attributes)
     (getAttribute html_element ''id'') = Inr (Str ''a'') \<and>
   get_raw ''id'' Attributes = Str []"
  by (simp add: operations notifications fixtures)

text \<open>
  C7. Claimed: the empty and the absent namespace address the same entry of the
  namespace index in \<^verbatim>\<open>setAttributeNS\<close>, \<^verbatim>\<open>getAttributeNS\<close>, \<^verbatim>\<open>hasAttributeNS\<close> and
  \<^verbatim>\<open>removeAttributeNS\<close>. On the code: after \<^verbatim>\<open>setAttribute("foo", "v")\<close>, the empty namespace
  finds the node, and \<^verbatim>\<open>getAttributeNS(null, "foo")\<close> is \<^verbatim>\<open>null\<close>,
  \<^verbatim>\<open>hasAttributeNS(null, "foo")\<close> is false; \<^verbatim>\<open>setAttributeNS(null, "foo", "w")\<close> adds a second
  node, where \<^verbatim>\<open>setAttributeNS("", "foo", "w")\<close> updates the first. Only
  \<^verbatim>\<open>removeAttributeNS\<close> treats the two alike.
\<close>

theorem null_namespace_is_another_key:
  "observe (run [setAttribute xml_name xml_element ''foo'' (Str ''v'')] Attributes)
     (getAttributeNS (Some []) ''foo'') = Inr (Str ''v'') \<and>
   observe (run [setAttribute xml_name xml_element ''foo'' (Str ''v'')] Attributes)
     (getAttributeNS None ''foo'') = Inr Null \<and>
   observe (run [setAttribute xml_name xml_element ''foo'' (Str ''v'')] Attributes)
     (hasAttributeNS (Some []) ''foo'') = Inr True \<and>
   observe (run [setAttribute xml_name xml_element ''foo'' (Str ''v'')] Attributes)
     (hasAttributeNS None ''foo'') = Inr False \<and>
   observe (run [setAttribute xml_name xml_element ''foo'' (Str ''v''),
                 setAttributeNS xml_name xml_qname xml_element (Some []) ''foo'' (Str ''w'')]
              Attributes)
     byNSAndLName = Inr [(''|foo'', 0)] \<and>
   observe (run [setAttribute xml_name xml_element ''foo'' (Str ''v''),
                 setAttributeNS xml_name xml_qname xml_element None ''foo'' (Str ''w'')]
              Attributes)
     byNSAndLName = Inr [(''|foo'', 0), (''null|foo'', 1)] \<and>
   observe (run [setAttribute xml_name xml_element ''foo'' (Str ''v''),
                 removeAttributeNS xml_element None ''foo''] Attributes)
     byNSAndLName = Inr [] \<and>
   observe (run [setAttribute xml_name xml_element ''foo'' (Str ''v''),
                 removeAttributeNS xml_element (Some []) ''foo''] Attributes)
     byNSAndLName = Inr []"
  by (simp add: operations notifications fixtures)

text \<open>
  C8. Claimed: for a declaration with \<^verbatim>\<open>boolean: true\<close> on \<^verbatim>\<open>disabled\<close>, assigning
  \<^verbatim>\<open>false\<close> to the property removes the attribute and assigning \<^verbatim>\<open>true\<close> sets it to the
  empty string. On the code: \<^verbatim>\<open>reflectAttribute\<close> never reads \<^verbatim>\<open>boolean\<close>; the setter
  stores what it is given. After the assignment of \<^verbatim>\<open>false\<close> the attribute is present
  with value \<^verbatim>\<open>false\<close>; after the assignment of \<^verbatim>\<open>true\<close> its value is \<^verbatim>\<open>true\<close>.
\<close>

theorem boolean_property_stores_its_argument:
  "observe (run [assign disabled_class ''disabled'' (Bool False)] Attributes)
     (hasAttribute html_element ''disabled'') = Inr True \<and>
   and_then (run [assign disabled_class ''disabled'' (Bool False)] Attributes)
     (getAttribute html_element ''disabled'') = Inr (Bool False) \<and>
   and_then (run [assign disabled_class ''disabled'' (Bool True)] Attributes)
     (getAttribute html_element ''disabled'') = Inr (Bool True)"
  by (simp add: operations notifications fixtures reflection)

text \<open>
  C9. Claimed: for the enumerated \<^verbatim>\<open>dir\<close>, after \<^verbatim>\<open>setAttribute("dir", "sideways")\<close>
  the attribute reads \<^verbatim>\<open>sideways\<close> and the property reads as the empty string, and with no
  attribute the property also reads as the empty string, without an error. On the code the
  first half holds; with no attribute \<^verbatim>\<open>getAttribute\<close> gives \<^verbatim>\<open>null\<close> and the installed
  conversion calls \<^verbatim>\<open>toLowerCase\<close> on it: a \<^verbatim>\<open>TypeError\<close>. (The getter installed for a
  declaration without conversion guards the same read with \<^verbatim>\<open>|| ""\<close>.)
\<close>

theorem enumerated_getter_throws_when_absent:
  "read dir_class ''dir'' Attributes = Inl TypeError \<and>
   getAttribute html_element ''dir'' Attributes = Inr Null \<and>
   legal_contentToIDL [(''ltr'', ''ltr''), (''rtl'', ''rtl''), (''auto'', ''auto'')] Null =
     Inl TypeError \<and>
   and_then (run [setAttribute xml_name html_element ''dir'' (Str ''sideways'')] Attributes)
     (getAttribute html_element ''dir'') = Inr (Str ''sideways'') \<and>
   and_then (run [setAttribute xml_name html_element ''dir'' (Str ''sideways'')] Attributes)
     (read dir_class ''dir'') = Inr (Str []) \<and>
   and_then (run [setAttribute xml_name html_element ''dir'' (Str ''RTL'')] Attributes)
     (read dir_class ''dir'') = Inr (Str ''rtl'')"
  by (simp add: operations notifications fixtures reflection)

text \<open>
  C10. \<^verbatim>\<open>setAttribute\<close> tests the prefix \<^verbatim>\<open>xmlns\<close> on the case-normalized name. For every
  valid name whose lower-case form begins with \<^verbatim>\<open>xmlns\<close>: on an HTML element the call
  fails with \<^verbatim>\<open>NamespaceError\<close>, whatever the case of the name and whatever the state; on
  another element it fails in the same way when the name itself begins with \<^verbatim>\<open>xmlns\<close>,
  and when it does not (a mixed-case name such as \<^verbatim>\<open>XMLNSfoo\<close>) the call returns, on
  every collection the operations can build, and the attribute is then present under that
  name with the value given.
\<close>

theorem xmlns_check_follows_case_normalization:
  assumes "isValidName q"
    and "take 5 (toLowerCase q) = ''xmlns''"
  shows "(isHTML elt \<longrightarrow> setAttribute isValidName elt q v st = Inl NamespaceError) \<and>
         (\<not> isHTML elt \<and> take 5 q = ''xmlns'' \<longrightarrow>
            setAttribute isValidName elt q v st = Inl NamespaceError) \<and>
         (\<not> isHTML elt \<and> take 5 q \<noteq> ''xmlns'' \<and> reachable isValidName isValidQName elt st \<longrightarrow>
            (\<exists>st'. setAttribute isValidName elt q v st = Inr st' \<and> hasAttribute elt q st' \<and>
                   getAttribute elt q st' = Inr v))"
proof (intro conjI impI)
  assume "isHTML elt"
  with assms show "setAttribute isValidName elt q v st = Inl NamespaceError"
    by (simp add: setAttribute_def)
next
  assume "\<not> isHTML elt \<and> take 5 q = ''xmlns''"
  with assms show "setAttribute isValidName elt q v st = Inl NamespaceError"
    by (simp add: setAttribute_def)
next
  assume h: "\<not> isHTML elt \<and> take 5 q \<noteq> ''xmlns'' \<and> reachable isValidName isValidQName elt st"
  then have False: "\<not> isHTML elt" and m: "take 5 q \<noteq> ''xmlns''"
    and r: "reachable isValidName isValidQName elt st"
    by simp_all
  have b: "bucket_ok e" if "map_of (byQName st) q = Some e" for e
    using reachable_buckets_ok [OF r] that by (rule bucket_okD)
  show "\<exists>st'. setAttribute isValidName elt q v st = Inr st' \<and> hasAttribute elt q st' \<and>
              getAttribute elt q st' = Inr v"
  proof (cases "map_of (byQName st) q")
    case None
    obtain a st1 where n: "newAttr elt q st = (a, st1)" by (cases "newAttr elt q st")
    from newAttr_lookup [OF n] None n assms(1) m False show ?thesis
      by (simp add: setAttribute_def getAttribute_def hasAttribute_def)
  next
    case (Some e)
    with b have "bucket_ok e" by simp
    with Some assms(1) m False show ?thesis
      by (cases e)
         (auto simp: setAttribute_def getAttribute_def hasAttribute_def bucket_ok_def
           split: list.splits)
  qed
qed

theorem xmlns_check_follows_case_normalization_witness:
  "xml_name ''XMLNSfoo'' \<and> take 5 (toLowerCase ''XMLNSfoo'') = ''xmlns'' \<and>
   xml_name ''xmlnsfoo'' \<and> take 5 (toLowerCase ''xmlnsfoo'') = ''xmlns'' \<and>
   isHTML html_element \<and>
   setAttribute xml_name html_element ''XMLNSfoo'' (Str ''v'') Attributes = Inl NamespaceError \<and>
   setAttribute xml_name html_element ''xmlnsfoo'' (Str ''v'') Attributes = Inl NamespaceError \<and>
   \<not> isHTML xml_element \<and> take 5 ''xmlnsfoo'' = ''xmlns'' \<and>
   setAttribute xml_name xml_element ''xmlnsfoo'' (Str ''v'') Attributes = Inl NamespaceError \<and>
   take 5 ''XMLNSfoo'' \<noteq> ''xmlns'' \<and>
   reachable xml_name xml_qname xml_element Attributes \<and>
   and_then (setAttribute xml_name xml_element ''XMLNSfoo'' (Str ''v'') Attributes)
     (getAttribute xml_element ''XMLNSfoo'') = Inr (Str ''v'') \<and>
   observe (setAttribute xml_name xml_element ''XMLNSfoo'' (Str ''v'') Attributes)
     (hasAttribute xml_element ''XMLNSfoo'') = Inr True"
proof -
  have r: "reachable xml_name xml_qname xml_element Attributes" by (rule reachable.r_new)
  have n: "xml_name ''XMLNSfoo''" "xml_name ''xmlnsfoo''" by (simp_all add: fixtures)
  have l: "take 5 (toLowerCase ''XMLNSfoo'') = ''xmlns''" "take 5 (toLowerCase ''xmlnsfoo'') = ''xmlns''"
    by (simp_all add: toLowerCase_def lower_char_def)
  have m: "take 5 ''XMLNSfoo'' \<noteq> ''xmlns''" "take 5 ''xmlnsfoo'' = ''xmlns''" by simp_all
  have h: "isHTML html_element" "\<not> isHTML xml_element" by (simp_all add: fixtures)
  from xmlns_check_follows_case_normalization
         [where isValidName = xml_name and isValidQName = xml_qname and q = "''XMLNSfoo''"
            and elt = html_element and v = "Str ''v''" and st = Attributes, OF n(1) l(1)]
    xmlns_check_follows_case_normalization
         [where isValidName = xml_name and isValidQName = xml_qname and q = "''xmlnsfoo''"
            and elt = html_element and v = "Str ''v''" and st = Attributes, OF n(2) l(2)]
    xmlns_check_follows_case_normalization
         [where isValidName = xml_name and isValidQName = xml_qname and q = "''xmlnsfoo''"
            and elt = xml_element and v = "Str ''v''" and st = Attributes, OF n(2) l(2)]
    xmlns_check_follows_case_normalization
         [where isValidName = xml_name and isValidQName = xml_qname and q = "''XMLNSfoo''"
            and elt = xml_element and v = "Str ''v''" and st = Attributes, OF n(1) l(1)]
    h r n l m
  show ?thesis by (auto simp: and_then_def observe_def)
qed

end
